theory Spec2Isabelle
  imports Main "HOL-Library.Word" "HOL-Library.Code_Target_Nat"
begin

section \<open>JavaScript values used by the two commands\<close>

text \<open>
  The commands \<^verbatim>\<open>mbucket raw\<close> (\<^verbatim>\<open>lib/mbucket/do_raw.js\<close>) and
  \<^verbatim>\<open>mbucket info\<close> (\<^verbatim>\<open>lib/mbucket/do_info.js\<close>) are embedded as functions from
  the command's inputs and the answers of its collaborators to the list of observable
  actions the command performs, in the order it performs them.

  A JavaScript string is modelled as a \<^typ>\<open>string\<close> whose characters are the code units
  below 256 (read as Latin-1). An option or a property that may be \<^verbatim>\<open>undefined\<close> or
  \<^verbatim>\<open>null\<close> is an \<^typ>\<open>'a option\<close>.
\<close>

subsection \<open>Truthiness\<close>

text \<open>\<^verbatim>\<open>if (s)\<close> for a string that may be undefined: the empty string is falsy too.\<close>

definition truthy :: "string option \<Rightarrow> bool" where
  "truthy s = (case s of None \<Rightarrow> False | Some t \<Rightarrow> t \<noteq> [])"

text \<open>The string read from a property; \<^verbatim>\<open>'text' + x\<close> renders null as \<^verbatim>\<open>null\<close>.\<close>

definition js_string :: "string option \<Rightarrow> string" where
  "js_string s = (case s of None \<Rightarrow> ''null'' | Some t \<Rightarrow> t)"

subsection \<open>String primitives\<close>

text \<open>\<^verbatim>\<open>s.indexOf(c)\<close>: the position of the first occurrence, \<open>-1\<close> when there is none.\<close>

fun indexOf :: "string \<Rightarrow> char \<Rightarrow> int" where
  "indexOf [] c = - 1"
| "indexOf (x # xs) c =
     (if x = c then 0 else (let r = indexOf xs c in if r < 0 then - 1 else r + 1))"

text \<open>\<^verbatim>\<open>s.substr(start, len)\<close> and \<^verbatim>\<open>s.substr(start)\<close> for \<open>start \<ge> 0\<close>.\<close>

definition substr :: "string \<Rightarrow> nat \<Rightarrow> nat \<Rightarrow> string" where
  "substr s start len = take len (drop start s)"

definition substr_from :: "string \<Rightarrow> nat \<Rightarrow> string" where
  "substr_from s start = drop start s"

text \<open>
  The white space and line terminator code units below 256: TAB, LF, VT, FF, CR, SP
  and NBSP.
\<close>

definition is_white_space :: "char \<Rightarrow> bool" where
  "is_white_space c = (of_char c \<in> {9, 10, 11, 12, 13, 32, 160 :: nat})"

definition trimLeft :: "string \<Rightarrow> string" where
  "trimLeft s = dropWhile is_white_space s"

text \<open>\<^verbatim>\<open>s.split(/\n/g)\<close>.\<close>

fun split_lines :: "string \<Rightarrow> string list" where
  "split_lines [] = [[]]"
| "split_lines (c # cs) =
     (if c = CHR 0x0A then [] # split_lines cs
      else (case split_lines cs of l # ls \<Rightarrow> (c # l) # ls | [] \<Rightarrow> [[c]]))"

text \<open>Decimal rendering of a number by \<^verbatim>\<open>%d\<close>.\<close>

fun string_of_nat :: "nat \<Rightarrow> string" where
  "string_of_nat n =
     (if n < 10 then [''0123456789'' ! n]
      else string_of_nat (n div 10) @ [''0123456789'' ! (n mod 10)])"

definition string_of_int :: "int \<Rightarrow> string" where
  "string_of_int i = (if i < 0 then CHR ''-'' # string_of_nat (nat (- i)) else string_of_nat (nat i))"

subsection \<open>Objects used as string-keyed dictionaries\<close>

text \<open>
  \<^verbatim>\<open>reqOpts.headers\<close> starts as the object literal \<^verbatim>\<open>{}\<close> and is filled by
  \<^verbatim>\<open>reqOpts.headers[header] = value\<close>. Such an object is the list of its own
  enumerable properties in the order in which \<^verbatim>\<open>Object.keys\<close> enumerates them: the
  names that are array indices first, in ascending numeric order, then the other names
  in the order of their creation.
\<close>

type_synonym js_object = "(string \<times> string) list"

definition is_digit :: "char \<Rightarrow> bool" where
  "is_digit c = (48 \<le> (of_char c :: nat) \<and> (of_char c :: nat) \<le> 57)"

definition nat_of_digits :: "string \<Rightarrow> nat" where
  "nat_of_digits s = foldl (\<lambda>a c. 10 * a + (of_char c - 48)) 0 s"

text \<open>An array index is the canonical decimal form of an integer below \<open>2^32 - 1\<close>.\<close>

definition is_array_index :: "string \<Rightarrow> bool" where
  "is_array_index s =
     (s \<noteq> [] \<and> list_all is_digit s \<and> (if hd s = CHR ''0'' then s = ''0'' else True)
      \<and> nat_of_digits s < 2 ^ 32 - 1)"

fun insert_index :: "string \<Rightarrow> string \<Rightarrow> js_object \<Rightarrow> js_object" where
  "insert_index k v [] = [(k, v)]"
| "insert_index k v ((k', v') # ps) =
     (if is_array_index k' \<and> nat_of_digits k' < nat_of_digits k
      then (k', v') # insert_index k v ps
      else (k, v) # (k', v') # ps)"

text \<open>
  \<^verbatim>\<open>obj[k] = v\<close> for a string \<open>v\<close>. The name \<^verbatim>\<open>__proto__\<close> is inherited from
  \<^verbatim>\<open>Object.prototype\<close> as an accessor whose setter ignores a value that is neither an
  object nor null, so assigning a string to it creates no property. Assigning to an
  existing property keeps its place.
\<close>

definition obj_set :: "js_object \<Rightarrow> string \<Rightarrow> string \<Rightarrow> js_object" where
  "obj_set obj k v =
     (if k = ''__proto__'' then obj
      else if k \<in> fst ` set obj then map (\<lambda>(k', v'). if k' = k then (k', v) else (k', v')) obj
      else if is_array_index k then insert_index k v obj
      else obj @ [(k, v)])"

section \<open>Errors and observable actions\<close>

datatype error =
    UsageError string
  | VError string
  | AssertionError string
  | TypeError string
  | CollaboratorError string

text \<open>\<^verbatim>\<open>res\<close>: the status line and the headers in the order \<^verbatim>\<open>Object.keys\<close> gives.\<close>

record response =
  httpVersion :: string
  statusCode :: nat
  res_headers :: "(string \<times> string) list"

text \<open>
  What a command does, as seen from outside. \<open>Stdout s\<close> is a write of \<open>s\<close> to
  \<^verbatim>\<open>process.stdout\<close>; \<^verbatim>\<open>console.log(s)\<close> is \<open>Stdout (s @ [CHR 0x0A])\<close>.
  \<open>Callback None\<close> is \<^verbatim>\<open>cb()\<close>, \<open>Callback (Some e)\<close> is \<^verbatim>\<open>cb(e)\<close>, and
  \<open>Throw e\<close> is an exception that leaves the command.
\<close>

datatype action =
    DoHelp string
  | SignRequest js_object
  | Request string string js_object
  | ReqWrite string
  | ReqEnd
  | Stdout string
  | HeadBucket string
  | HeadBucketObject string string
  | PrintBucketObjectInfo response
  | Callback "error option"
  | Throw error

definition console_log :: "string \<Rightarrow> action" where
  "console_log s = Stdout (s @ [CHR 0x0A])"

text \<open>The text that reaches the primary output stream.\<close>

fun stdout_of :: "action list \<Rightarrow> string" where
  "stdout_of [] = []"
| "stdout_of (Stdout s # as) = s @ stdout_of as"
| "stdout_of (a # as) = stdout_of as"

section \<open>Raw mode: request building\<close>

record opts =
  opt_help :: bool
  opt_verbose :: bool
  opt_method :: "string option"
  opt_header :: "string list option"
  opt_include :: bool
  opt_data :: "string option"

subsection \<open>Method resolution (lines 39--58)\<close>

definition resolve_method :: "opts \<Rightarrow> string" where
  "resolve_method opts =
     (if \<not> truthy (opt_method opts)
      then (if truthy (opt_data opts) then ''PUT'' else ''GET'')
      else js_string (opt_method opts))"

text \<open>
  The value of \<^verbatim>\<open>{GET: 'get', ...}[method]\<close>. The lookup also finds what the object
  literal inherits from \<^verbatim>\<open>Object.prototype\<close>; each of those values is a function or an
  object, hence truthy, and none is one of the six strings.
\<close>

datatype method_func = Own string | Inherited

definition object_prototype_names :: "string list" where
  "object_prototype_names =
     [''constructor'', ''hasOwnProperty'', ''isPrototypeOf'', ''propertyIsEnumerable'',
      ''toLocaleString'', ''toString'', ''valueOf'', ''__proto__'',
      ''__defineGetter__'', ''__defineSetter__'', ''__lookupGetter__'', ''__lookupSetter__'']"

definition methodFunc_of :: "string \<Rightarrow> method_func option" where
  "methodFunc_of m =
     (if m = ''GET'' then Some (Own ''get'')
      else if m = ''PUT'' then Some (Own ''put'')
      else if m = ''POST'' then Some (Own ''post'')
      else if m = ''HEAD'' then Some (Own ''head'')
      else if m = ''OPTIONS'' then Some (Own ''opts'')
      else if m = ''DELETE'' then Some (Own ''del'')
      else if m \<in> set object_prototype_names then Some Inherited
      else None)"

subsection \<open>Target resolution (lines 61--67)\<close>

record parsed_url =
  host :: "string option"
  port :: "string option"
  pathname :: "string option"
  search :: "string option"

text \<open>
  \<open>url_parse\<close> is Node's \<^verbatim>\<open>url.parse\<close> and \<open>client_path\<close> is the client's
  \<^verbatim>\<open>path\<close> method; both are collaborators and are parameters here.
  \<^verbatim>\<open>assert.ok\<close> throws an \<^verbatim>\<open>AssertionError\<close> with the given message.
\<close>

definition resolve_target ::
  "(string \<Rightarrow> parsed_url) \<Rightarrow> (string option \<Rightarrow> string) \<Rightarrow> string \<Rightarrow> error + string" where
  "resolve_target url_parse client_path arg =
     (let parsed = url_parse arg in
      if truthy (host parsed)
      then Inl (AssertionError (''given PATH should not have a host: '' @ js_string (host parsed)))
      else if truthy (port parsed)
      then Inl (AssertionError (''given PATH should not have a port: '' @ js_string (port parsed)))
      else (let p = client_path (pathname parsed) in
            Inr (if truthy (search parsed) then p @ js_string (search parsed) else p)))"

subsection \<open>Header population (lines 72--84)\<close>

text \<open>One round of the loop over \<^verbatim>\<open>opts.header\<close>: the name and the value of a flag.\<close>

definition parse_header :: "string \<Rightarrow> error + (string \<times> string)" where
  \<open>parse_header raw =
     (let j = indexOf raw CHR '':'' in
      if j < 0 then Inl (VError (''failed to parse header: "'' @ raw @ ''"''))
      else Inr (substr raw 0 (nat j), trimLeft (substr_from raw (nat (j + 1)))))\<close>

fun populate_headers :: "string list \<Rightarrow> js_object \<Rightarrow> error + js_object" where
  "populate_headers [] hs = Inr hs"
| "populate_headers (raw # rest) hs =
     (case parse_header raw of
        Inl e \<Rightarrow> Inl e
      | Inr (name, val) \<Rightarrow> populate_headers rest (obj_set hs name val))"

definition build_headers :: "opts \<Rightarrow> error + js_object" where
  "build_headers opts =
     (case opt_header opts of None \<Rightarrow> Inr [] | Some flags \<Rightarrow> populate_headers flags [])"

section \<open>Raw mode: the request/response engine\<close>

subsection \<open>Values handed back by the transport\<close>

type_synonym buffer = "8 word list"

text \<open>
  A value decoded from JSON text; numbers are restricted to integers. \<open>JObj\<close> lists
  the members in the order \<^verbatim>\<open>JSON.stringify\<close> visits them.
\<close>

datatype js_value =
    JNull
  | JBool bool
  | JNum int
  | JStr string
  | JArr "js_value list"
  | JObj "(string \<times> js_value) list"

text \<open>\<^verbatim>\<open>resErr\<close>: an error object whose \<^verbatim>\<open>body\<close> property may be missing.\<close>

record http_error =
  err_body :: "js_value option"

datatype body_event = Data buffer | End

fun js_truthy :: "js_value \<Rightarrow> bool" where
  "js_truthy JNull = False"
| "js_truthy (JBool b) = b"
| "js_truthy (JNum n) = (n \<noteq> 0)"
| "js_truthy (JStr s) = (s \<noteq> [])"
| "js_truthy (JArr vs) = True"
| "js_truthy (JObj ms) = True"

text \<open>\<^verbatim>\<open>typeof(v) === 'object'\<close>.\<close>

fun typeof_is_object :: "js_value \<Rightarrow> bool" where
  "typeof_is_object JNull = True"
| "typeof_is_object (JArr vs) = True"
| "typeof_is_object (JObj ms) = True"
| "typeof_is_object v = False"

subsection \<open>\<^verbatim>\<open>JSON.stringify\<close> with one argument\<close>

definition json_escape_char :: "char \<Rightarrow> string" where
  "json_escape_char c =
     (if c = CHR 0x22 then [CHR 0x5C, CHR 0x22]
      else if c = CHR 0x5C then [CHR 0x5C, CHR 0x5C]
      else if c = CHR 0x08 then [CHR 0x5C, CHR ''b'']
      else if c = CHR 0x0C then [CHR 0x5C, CHR ''f'']
      else if c = CHR 0x0A then [CHR 0x5C, CHR ''n'']
      else if c = CHR 0x0D then [CHR 0x5C, CHR ''r'']
      else if c = CHR 0x09 then [CHR 0x5C, CHR ''t'']
      else if (of_char c :: nat) < 32
      then [CHR 0x5C, CHR ''u'', CHR ''0'', CHR ''0'',
            ''0123456789abcdef'' ! (of_char c div 16), ''0123456789abcdef'' ! (of_char c mod 16)]
      else [c])"

definition json_quote :: "string \<Rightarrow> string" where
  "json_quote s = CHR 0x22 # concat (map json_escape_char s) @ [CHR 0x22]"

fun join_commas :: "string list \<Rightarrow> string" where
  "join_commas [] = []"
| "join_commas [x] = x"
| "join_commas (x # y # r) = x @ '','' @ join_commas (y # r)"

fun JSON_stringify :: "js_value \<Rightarrow> string"
  and stringify_elements :: "js_value list \<Rightarrow> string list"
  and stringify_members :: "(string \<times> js_value) list \<Rightarrow> string list" where
  "JSON_stringify JNull = ''null''"
| "JSON_stringify (JBool b) = (if b then ''true'' else ''false'')"
| "JSON_stringify (JNum n) = string_of_int n"
| "JSON_stringify (JStr s) = json_quote s"
| "JSON_stringify (JArr vs) = ''['' @ join_commas (stringify_elements vs) @ '']''"
| "JSON_stringify (JObj ms) = ''{'' @ join_commas (stringify_members ms) @ ''}''"
| "stringify_elements [] = []"
| "stringify_elements (v # vs) = JSON_stringify v # stringify_elements vs"
| "stringify_members [] = []"
| "stringify_members ((k, v) # ms) = (json_quote k @ '':'' @ JSON_stringify v) # stringify_members ms"

subsection \<open>Collaborators\<close>

text \<open>
  Everything \<^verbatim>\<open>do_raw\<close> calls and does not define: \<^verbatim>\<open>url.parse\<close>, the client's
  \<^verbatim>\<open>path\<close> and \<^verbatim>\<open>signRequest\<close> (which adds headers to the object it is given),
  the answer of the HTTP client to the verb call (\<open>open_request\<close> is \<^verbatim>\<open>reqErr\<close>),
  the table \<^verbatim>\<open>http.STATUS_CODES\<close>, the \<^verbatim>\<open>'result'\<close> event if one arrives, the
  \<^verbatim>\<open>'data'\<close> and \<^verbatim>\<open>'end'\<close> events of the response in arrival order, and
  \<^verbatim>\<open>Buffer.prototype.toString('utf8')\<close>.
\<close>

record env =
  url_parse :: "string \<Rightarrow> parsed_url"
  client_path :: "string option \<Rightarrow> string"
  sign_request :: "js_object \<Rightarrow> error + js_object"
  open_request :: "error option"
  status_codes :: "nat \<Rightarrow> string option"
  result_event :: "(http_error option \<times> response) option"
  body_events :: "body_event list"
  to_utf8 :: "buffer \<Rightarrow> string"

subsection \<open>Response trace (lines 86--94 and 122--129)\<close>

definition writeResLine :: "opts \<Rightarrow> string \<Rightarrow> string \<Rightarrow> action list" where
  "writeResLine opts method line =
     (if opt_verbose opts then [console_log (''< '' @ line)] else [])
     @ (if opt_include opts \<or> method = ''HEAD'' then [console_log line] else [])"

definition status_line :: "env \<Rightarrow> response \<Rightarrow> string" where
  "status_line env res =
     ''HTTP/'' @ httpVersion res @ '' '' @ string_of_nat (statusCode res) @ '' ''
     @ (case status_codes env (statusCode res) of None \<Rightarrow> ''undefined'' | Some r \<Rightarrow> r)"

text \<open>The lines handed to \<^verbatim>\<open>writeResLine\<close>, in order.\<close>

definition response_trace_lines :: "env \<Rightarrow> response \<Rightarrow> string list" where
  "response_trace_lines env res =
     status_line env res # map (\<lambda>(k, v). k @ '': '' @ v) (res_headers res) @ [[]]"

definition response_trace :: "opts \<Rightarrow> string \<Rightarrow> env \<Rightarrow> response \<Rightarrow> action list" where
  "response_trace opts method env res =
     concat (map (writeResLine opts method) (response_trace_lines env res))"

subsection \<open>Body handling (lines 131--168)\<close>

text \<open>
  \<^verbatim>\<open>process.stdout.write\<close> accepts a string or a buffer and raises a
  \<^verbatim>\<open>TypeError\<close> for a number or a boolean; then \<^verbatim>\<open>cb\<close> is not reached.
\<close>

definition write_error_body :: "js_value \<Rightarrow> action list" where
  "write_error_body b =
     (if typeof_is_object b then [console_log (JSON_stringify b), Callback None]
      else (case b of
              JStr s \<Rightarrow> [Stdout s, Callback None]
            | _ \<Rightarrow> [Throw (TypeError ''invalid chunk argument'')]))"

definition on_body_event :: "env \<Rightarrow> body_event \<Rightarrow> action list" where
  "on_body_event env e =
     (case e of Data chunk \<Rightarrow> [Stdout (to_utf8 env chunk)] | End \<Rightarrow> [Callback None])"

definition on_result :: "opts \<Rightarrow> string \<Rightarrow> env \<Rightarrow> http_error option \<Rightarrow> response \<Rightarrow> action list" where
  "on_result opts method env resErr res =
     response_trace opts method env res
     @ (if method = ''HEAD'' then [Callback None]
        else (case resErr of
                Some e \<Rightarrow>
                  (case err_body e of
                     Some b \<Rightarrow> if js_truthy b then write_error_body b else [Callback None]
                   | None \<Rightarrow> [Callback None])
              | None \<Rightarrow> concat (map (on_body_event env) (body_events env))))"

subsection \<open>Dispatch (lines 96--116 and 172--180)\<close>

definition request_trace :: "opts \<Rightarrow> string \<Rightarrow> string \<Rightarrow> js_object \<Rightarrow> action list" where
  "request_trace opts method path hs =
     (if opt_verbose opts
      then console_log (''> '' @ method @ '' '' @ path @ '' HTTP/1.1'')
           # map (\<lambda>(k, v). console_log (''> '' @ k @ '': '' @ v)) hs
           @ [console_log ''>'']
      else [])"

definition send_data :: "opts \<Rightarrow> action list" where
  "send_data opts =
     (if truthy (opt_data opts)
      then (if opt_verbose opts
            then map (\<lambda>line. console_log (''> '' @ line)) (split_lines (js_string (opt_data opts)))
            else [])
           @ [ReqWrite (js_string (opt_data opts))]
      else [])"

definition on_request :: "opts \<Rightarrow> string \<Rightarrow> env \<Rightarrow> string \<Rightarrow> js_object \<Rightarrow> action list" where
  "on_request opts method env path hs =
     (case open_request env of
        Some reqErr \<Rightarrow> [Callback (Some reqErr)]
      | None \<Rightarrow>
          request_trace opts method path hs @ send_data opts @ [ReqEnd]
          @ (case result_event env of
               None \<Rightarrow> []
             | Some (resErr, res) \<Rightarrow> on_result opts method env resErr res))"

text \<open>
  \<^verbatim>\<open>client.client[methodFunc]\<close> is a method of the HTTP client for one of the six
  strings. For an inherited value the property name is the text of a function or of an
  object, the lookup yields \<^verbatim>\<open>undefined\<close>, and calling it raises a \<^verbatim>\<open>TypeError\<close>.
\<close>

definition on_sign_request ::
  "opts \<Rightarrow> string \<Rightarrow> method_func \<Rightarrow> env \<Rightarrow> string \<Rightarrow> js_object \<Rightarrow> action list" where
  "on_sign_request opts method mf env path hs =
     (case sign_request env hs of
        Inl signErr \<Rightarrow> [Callback (Some signErr)]
      | Inr hs' \<Rightarrow>
          (case mf of
             Inherited \<Rightarrow> [Throw (TypeError ''client.client[methodFunc] is not a function'')]
           | Own f \<Rightarrow> Request f path hs' # on_request opts method env path hs'))"

subsection \<open>The command (lines 27--183)\<close>

definition do_raw :: "env \<Rightarrow> string \<Rightarrow> opts \<Rightarrow> string list \<Rightarrow> action list" where
  \<open>do_raw env subcmd opts args =
     (if opt_help opts then [DoHelp subcmd]
      else if length args < 1 then [Callback (Some (UsageError ''invalid arguments''))]
      else
        (let method = resolve_method opts in
         case methodFunc_of method of
           None \<Rightarrow> [Callback (Some (VError (''unknown HTTP method: "'' @ method @ ''"'')))]
         | Some mf \<Rightarrow>
             (case resolve_target (url_parse env) (client_path env) (args ! 0) of
                Inl e \<Rightarrow> [Throw e]
              | Inr path \<Rightarrow>
                  (case build_headers opts of
                     Inl e \<Rightarrow> [Callback (Some e)]
                   | Inr hs \<Rightarrow> SignRequest hs # on_sign_request opts method mf env path hs))))\<close>

text \<open>
  Modelled from the spec: the scaffolding that turns the argument of \<^verbatim>\<open>cb\<close> into the
  exit status of the process is not among the sources. The spec has the process exit 0
  when the command completes without an error and non-zero when it reports one.
\<close>

definition exit_status :: "error option \<Rightarrow> nat" where
  "exit_status e = (case e of None \<Rightarrow> 0 | Some err \<Rightarrow> 1)"

section \<open>Info mode (\<^verbatim>\<open>do_info.js\<close>, lines 19--57)\<close>

record info_opts =
  info_help :: bool

record manta_uri =
  bucket :: string
  object :: "string option"

text \<open>
  The collaborators of \<^verbatim>\<open>do_info\<close>: the constructor \<^verbatim>\<open>MantaUri\<close>, which throws
  on a string it cannot parse, and the client's two HEAD calls with what they pass to
  their callback.
\<close>

record info_env =
  manta_uri_parse :: "string \<Rightarrow> error + manta_uri"
  headBucket :: "string \<Rightarrow> error + response"
  headBucketObject :: "string \<Rightarrow> string \<Rightarrow> error + response"

fun error_message :: "error \<Rightarrow> string" where
  "error_message (UsageError m) = m"
| "error_message (VError m) = m"
| "error_message (AssertionError m) = m"
| "error_message (TypeError m) = m"
| "error_message (CollaboratorError m) = m"

definition on_head :: "error + response \<Rightarrow> action list" where
  "on_head r =
     (case r of
        Inl err \<Rightarrow> [Callback (Some err)]
      | Inr res \<Rightarrow> [PrintBucketObjectInfo res, Callback None])"

definition do_info :: "info_env \<Rightarrow> string \<Rightarrow> info_opts \<Rightarrow> string list \<Rightarrow> action list" where
  "do_info env subcmd opts args =
     (if info_help opts then [DoHelp subcmd]
      else if length args \<noteq> 1
      then [Callback (Some (UsageError ''incorrect number of args''))]
      else
        (case manta_uri_parse env (args ! 0) of
           Inl parseErr \<Rightarrow> [Callback (Some (UsageError (error_message parseErr)))]
         | Inr muri \<Rightarrow>
             if \<not> truthy (object muri)
             then HeadBucket (bucket muri) # on_head (headBucket env (bucket muri))
             else HeadBucketObject (bucket muri) (js_string (object muri))
                  # on_head (headBucketObject env (bucket muri) (js_string (object muri)))))"

section \<open>Properties of a run\<close>

text \<open>Signing and the verb call of the HTTP client are the two steps towards a request.\<close>

fun is_request_action :: "action \<Rightarrow> bool" where
  "is_request_action (SignRequest hs) = True"
| "is_request_action (Request f p hs) = True"
| "is_request_action a = False"

definition no_request_attempted :: "action list \<Rightarrow> bool" where
  "no_request_attempted as = list_all (\<lambda>a. \<not> is_request_action a) as"

fun is_completion :: "action \<Rightarrow> bool" where
  "is_completion (Callback e) = True"
| "is_completion (Throw e) = True"
| "is_completion a = False"


section \<open>Sample collaborators\<close>

text \<open>
  A concrete run to evaluate the commands on. The URL parser is \<^verbatim>\<open>url.parse\<close> on
  the strings used below; the decoder is UTF-8 decoding on buffers of 7-bit bytes, where
  every byte is one character.
\<close>

definition sample_url_parse :: "string \<Rightarrow> parsed_url" where
  "sample_url_parse s =
     (if s = ''http://example.com:8080/x''
      then \<lparr>host = Some ''example.com:8080'', port = Some ''8080'', pathname = Some ''/x'',
            search = None\<rparr>
      else \<lparr>host = None, port = None, pathname = Some s, search = None\<rparr>)"

definition ascii_text :: "buffer \<Rightarrow> string" where
  "ascii_text b = map (\<lambda>w. char_of (unat w)) b"

definition sample_status_codes :: "nat \<Rightarrow> string option" where
  "sample_status_codes n =
     (if n = 200 then Some ''OK'' else if n = 404 then Some ''Not Found'' else None)"

definition ok_response :: response where
  "ok_response =
     \<lparr>httpVersion = ''1.1'', statusCode = 200, res_headers = [(''content-type'', ''text/plain'')]\<rparr>"

definition not_found_response :: response where
  "not_found_response = \<lparr>httpVersion = ''1.1'', statusCode = 404, res_headers = []\<rparr>"

definition not_found_error :: http_error where
  "not_found_error = \<lparr>err_body = Some (JObj [(''code'', JStr ''NotFound'')])\<rparr>"

definition sample_env :: env where
  "sample_env =
     \<lparr>url_parse = sample_url_parse,
      client_path = js_string,
      sign_request = (\<lambda>hs. Inr (obj_set hs ''authorization'' ''Signature abc'')),
      open_request = None,
      status_codes = sample_status_codes,
      result_event = Some (None, ok_response),
      body_events = [Data [0x66, 0x6F, 0x6F], Data [0x62, 0x61, 0x72], End],
      to_utf8 = ascii_text\<rparr>"

definition not_found_env :: env where
  "not_found_env = sample_env\<lparr>result_event := Some (Some not_found_error, not_found_response)\<rparr>"

definition no_flags :: opts where
  "no_flags =
     \<lparr>opt_help = False, opt_verbose = False, opt_method = None, opt_header = None,
      opt_include = False, opt_data = None\<rparr>"

definition sample_info_env :: info_env where
  "sample_info_env =
     \<lparr>manta_uri_parse = (\<lambda>s.
        if s = ''manta:mybucket/foo.txt'' then Inr \<lparr>bucket = ''mybucket'', object = Some ''foo.txt''\<rparr>
        else if s = ''manta:mybucket'' then Inr \<lparr>bucket = ''mybucket'', object = None\<rparr>
        else if s = ''manta:nobucket'' then Inr \<lparr>bucket = ''nobucket'', object = None\<rparr>
        else Inl (VError ''invalid manta URI'')),
      headBucket = (\<lambda>b. if b = ''mybucket'' then Inr ok_response
                          else Inl (CollaboratorError ''BucketNotFound'')),
      headBucketObject = (\<lambda>b k. if b = ''mybucket'' \<and> k = ''foo.txt'' then Inr ok_response
                                else Inl (CollaboratorError ''ObjectNotFound''))\<rparr>"

section \<open>Auxiliary facts\<close>

subsection \<open>Strings and header flags\<close>









section \<open>Raw mode: the shape of a run that sends the request\<close>

text \<open>
  \<open>ReqEnd\<close> is among the actions exactly when the command reached \<^verbatim>\<open>req.end()\<close>.
  Such a run is the run without a \<^verbatim>\<open>'result'\<close> event followed by what the
  \<^verbatim>\<open>'result'\<close> handler does.
\<close>

lemma do_raw_sent:
  "ReqEnd \<in> set (do_raw env subcmd opts args) \<Longrightarrow>
   do_raw env subcmd opts args =
     do_raw (env\<lparr>result_event := None\<rparr>) subcmd opts args
     @ (case result_event env of None \<Rightarrow> []
        | Some (resErr, res) \<Rightarrow> on_result opts (resolve_method opts) env resErr res)"
  by (auto simp: do_raw_def on_sign_request_def on_request_def Let_def
      split: option.splits sum.splits method_func.splits if_splits)

lemma stdout_of_append: "stdout_of (xs @ ys) = stdout_of xs @ stdout_of ys"
  by (induction xs rule: stdout_of.induct) auto

lemma stdout_of_map_Stdout: "stdout_of (map (\<lambda>x. Stdout (f x)) xs) = concat (map f xs)"
  by (induction xs) auto

lemma do_raw_sent_explicit:
  assumes "ReqEnd \<in> set (do_raw env subcmd opts args)"
  shows "\<exists>f p hs hs'. \<forall>r evs.
     do_raw (env\<lparr>result_event := r, body_events := evs\<rparr>) subcmd opts args =
       SignRequest hs # Request f p hs'
       # request_trace opts (resolve_method opts) p hs' @ send_data opts @ [ReqEnd]
       @ (case r of None \<Rightarrow> []
          | Some (resErr, res) \<Rightarrow>
              on_result opts (resolve_method opts) (env\<lparr>result_event := r, body_events := evs\<rparr>)
                resErr res)"
proof -
  from assms obtain f p hs hs' where
    "\<not> opt_help opts" "\<not> length args < 1"
    "methodFunc_of (resolve_method opts) = Some (Own f)"
    "resolve_target (url_parse env) (client_path env) (args ! 0) = Inr p"
    "build_headers opts = Inr hs" "sign_request env hs = Inr hs'" "open_request env = None"
    by (auto simp: do_raw_def on_sign_request_def on_request_def Let_def
        split: option.splits sum.splits method_func.splits if_splits)
  then have "\<forall>r evs.
     do_raw (env\<lparr>result_event := r, body_events := evs\<rparr>) subcmd opts args =
       SignRequest hs # Request f p hs'
       # request_trace opts (resolve_method opts) p hs' @ send_data opts @ [ReqEnd]
       @ (case r of None \<Rightarrow> []
          | Some (resErr, res) \<Rightarrow>
              on_result opts (resolve_method opts) (env\<lparr>result_event := r, body_events := evs\<rparr>)
                resErr res)"
    by (simp add: do_raw_def on_sign_request_def on_request_def Let_def)
  then show ?thesis by blast
qed

lemma prefix_quiet:
  assumes "ReqEnd \<in> set (do_raw env subcmd opts args)" "\<not> opt_verbose opts"
  shows "stdout_of (do_raw (env\<lparr>result_event := None\<rparr>) subcmd opts args) = []"
proof -
  from do_raw_sent_explicit[OF assms(1)] obtain f p hs hs' where
    H: "\<And>r evs. do_raw (env\<lparr>result_event := r, body_events := evs\<rparr>) subcmd opts args =
       SignRequest hs # Request f p hs'
       # request_trace opts (resolve_method opts) p hs' @ send_data opts @ [ReqEnd]
       @ (case r of None \<Rightarrow> []
          | Some (resErr, res) \<Rightarrow>
              on_result opts (resolve_method opts) (env\<lparr>result_event := r, body_events := evs\<rparr>)
                resErr res)"
    by blast
  show ?thesis using H[where r = None and evs = "body_events env"] assms(2)
    by (simp add: request_trace_def send_data_def)
qed

lemma request_phase_no_completion:
  "list_all (\<lambda>a. \<not> is_completion a) (request_trace opts m p hs @ send_data opts @ [ReqEnd])"
  by (auto simp: request_trace_def send_data_def console_log_def list_all_iff)

lemma prefix_no_completion:
  assumes "ReqEnd \<in> set (do_raw env subcmd opts args)"
  shows "list_all (\<lambda>a. \<not> is_completion a) (do_raw (env\<lparr>result_event := None\<rparr>) subcmd opts args)"
proof -
  from do_raw_sent_explicit[OF assms(1)] obtain f p hs hs' where
    H: "\<And>r evs. do_raw (env\<lparr>result_event := r, body_events := evs\<rparr>) subcmd opts args =
       SignRequest hs # Request f p hs'
       # request_trace opts (resolve_method opts) p hs' @ send_data opts @ [ReqEnd]
       @ (case r of None \<Rightarrow> []
          | Some (resErr, res) \<Rightarrow>
              on_result opts (resolve_method opts) (env\<lparr>result_event := r, body_events := evs\<rparr>)
                resErr res)"
    by blast
  show ?thesis
    using H[where r = None and evs = "body_events env"] request_phase_no_completion[of opts "resolve_method opts" p hs']
    by simp
qed

lemma response_trace_no_completion:
  "list_all (\<lambda>a. \<not> is_completion a) (response_trace opts m env res)"
  by (auto simp: response_trace_def writeResLine_def console_log_def list_all_iff)

lemma stdout_of_response_trace_quiet:
  "\<not> opt_verbose opts \<Longrightarrow> \<not> opt_include opts \<Longrightarrow> m \<noteq> ''HEAD'' \<Longrightarrow> response_trace opts m env res = []"
  by (simp add: response_trace_def writeResLine_def)


lemma request_sent_iff:
  "ReqEnd \<in> set (do_raw env subcmd opts args) \<longleftrightarrow>
     \<not> opt_help opts \<and> args \<noteq> []
     \<and> (\<exists>f p hs hs'.
           methodFunc_of (resolve_method opts) = Some (Own f)
           \<and> resolve_target (url_parse env) (client_path env) (args ! 0) = Inr p
           \<and> build_headers opts = Inr hs
           \<and> sign_request env hs = Inr hs'
           \<and> open_request env = None)"
  by (auto simp: do_raw_def on_sign_request_def on_request_def Let_def
      split: option.splits sum.splits method_func.splits if_splits)

section \<open>Evaluation on the samples\<close>

text \<open>The definitions a concrete run unfolds.\<close>

lemmas eval_defs =
  do_raw_def on_sign_request_def on_request_def on_result_def request_trace_def send_data_def
  response_trace_def response_trace_lines_def status_line_def writeResLine_def
  write_error_body_def on_body_event_def console_log_def
  resolve_method_def methodFunc_of_def object_prototype_names_def resolve_target_def
  build_headers_def parse_header_def substr_def substr_from_def trimLeft_def is_white_space_def
  obj_set_def is_array_index_def is_digit_def nat_of_digits_def truthy_def js_string_def
  json_quote_def json_escape_char_def string_of_int_def
  no_request_attempted_def exit_status_def
  sample_env_def not_found_env_def sample_url_parse_def ascii_text_def sample_status_codes_def
  ok_response_def not_found_response_def not_found_error_def no_flags_def
  do_info_def on_head_def sample_info_env_def

section \<open>Raw mode: error responses\<close>





section \<open>Raw mode: success responses\<close>

lemma map_on_body_event_Data:
  "concat (map (on_body_event env \<circ> Data) chunks) = map (\<lambda>c. Stdout (to_utf8 env c)) chunks"
  by (induction chunks) (simp_all add: on_body_event_def)

lemma on_result_stream:
  "m \<noteq> ''HEAD'' \<Longrightarrow>
   on_result opts m env None res =
     response_trace opts m env res @ concat (map (on_body_event env) (body_events env))"
  by (simp add: on_result_def)

text \<open>
  C2. The transport passes no \<^verbatim>\<open>resErr\<close> for a status below 400. When the request
  was sent and the method is not HEAD, every \<^verbatim>\<open>'data'\<close> event writes its chunk once, as
  the text \<^verbatim>\<open>toString('utf8')\<close> gives, in arrival order; the callback follows the
  \<^verbatim>\<open>'end'\<close> event and is not called while only chunks have arrived. Without
  \<^verbatim>\<open>--verbose\<close> and \<^verbatim>\<open>--include\<close> the primary output is the concatenation of the
  decoded chunks.
\<close>

theorem success_body_streamed:
  assumes "ReqEnd \<in> set (do_raw env subcmd opts args)"
    and "result_event env = Some (None, res)"
    and "resolve_method opts \<noteq> ''HEAD''"
  shows "(body_events env = map Data chunks @ [End] \<longrightarrow>
            do_raw env subcmd opts args =
              do_raw (env\<lparr>result_event := None\<rparr>) subcmd opts args
              @ response_trace opts (resolve_method opts) env res
              @ map (\<lambda>c. Stdout (to_utf8 env c)) chunks @ [Callback None])
       \<and> (body_events env = map Data chunks \<longrightarrow>
            do_raw env subcmd opts args =
              do_raw (env\<lparr>result_event := None\<rparr>) subcmd opts args
              @ response_trace opts (resolve_method opts) env res
              @ map (\<lambda>c. Stdout (to_utf8 env c)) chunks
            \<and> filter is_completion (do_raw env subcmd opts args) = [])
       \<and> (\<not> opt_verbose opts \<and> \<not> opt_include opts
            \<and> body_events env = map Data chunks @ [End] \<longrightarrow>
            stdout_of (do_raw env subcmd opts args) = concat (map (to_utf8 env) chunks)
            \<and> filter is_completion (do_raw env subcmd opts args) = [Callback None])"
proof -
  let ?pre = "do_raw (env\<lparr>result_event := None\<rparr>) subcmd opts args"
  let ?rt = "response_trace opts (resolve_method opts) env res"
  let ?out = "map (\<lambda>c. Stdout (to_utf8 env c)) chunks"
  have run: "do_raw env subcmd opts args
               = ?pre @ ?rt @ concat (map (on_body_event env) (body_events env))"
    using do_raw_sent[OF assms(1)] assms(2) on_result_stream[OF assms(3)] by simp
  have pre_c: "filter is_completion ?pre = []"
    using prefix_no_completion[OF assms(1)] by (simp add: list_all_iff filter_empty_conv)
  have rt_c: "filter is_completion ?rt = []"
    using response_trace_no_completion[of opts "resolve_method opts" env res]
    by (simp add: list_all_iff filter_empty_conv)
  have out_c: "filter is_completion ?out = []"
    by (simp add: filter_empty_conv)
  have 1: "body_events env = map Data chunks @ [End] \<longrightarrow>
            do_raw env subcmd opts args = ?pre @ ?rt @ ?out @ [Callback None]"
    using run by (simp add: map_on_body_event_Data on_body_event_def)
  have 2: "body_events env = map Data chunks \<longrightarrow>
            do_raw env subcmd opts args = ?pre @ ?rt @ ?out
            \<and> filter is_completion (do_raw env subcmd opts args) = []"
    using run pre_c rt_c out_c by (simp add: map_on_body_event_Data)
  have 3: "\<not> opt_verbose opts \<and> \<not> opt_include opts
            \<and> body_events env = map Data chunks @ [End] \<longrightarrow>
            stdout_of (do_raw env subcmd opts args) = concat (map (to_utf8 env) chunks)
            \<and> filter is_completion (do_raw env subcmd opts args) = [Callback None]"
  proof (intro impI)
    assume q: "\<not> opt_verbose opts \<and> \<not> opt_include opts
            \<and> body_events env = map Data chunks @ [End]"
    then have r: "do_raw env subcmd opts args = ?pre @ ?rt @ ?out @ [Callback None]"
      using 1 by blast
    have "stdout_of ?pre = []" "?rt = []"
      using q prefix_quiet[OF assms(1)] assms(3) by (simp_all add: stdout_of_response_trace_quiet)
    then have "stdout_of (?pre @ ?rt @ ?out @ [Callback None]) = concat (map (to_utf8 env) chunks)"
      by (simp add: stdout_of_append stdout_of_map_Stdout)
    moreover have "filter is_completion (?pre @ ?rt @ ?out @ [Callback None]) = [Callback None]"
      using pre_c rt_c out_c by simp
    ultimately show "stdout_of (do_raw env subcmd opts args) = concat (map (to_utf8 env) chunks)
            \<and> filter is_completion (do_raw env subcmd opts args) = [Callback None]"
      using r by simp
  qed
  from 1 2 3 show ?thesis by blast
qed

theorem success_body_streamed_witness:
  "ReqEnd \<in> set (do_raw sample_env ''raw'' no_flags [''/buckets''])
   \<and> result_event sample_env = Some (None, ok_response)
   \<and> resolve_method no_flags \<noteq> ''HEAD''
   \<and> body_events sample_env = map Data [[0x66, 0x6F, 0x6F], [0x62, 0x61, 0x72]] @ [End]
   \<and> stdout_of (do_raw sample_env ''raw'' no_flags [''/buckets'']) = ''foobar''
   \<and> filter is_completion (do_raw sample_env ''raw'' no_flags [''/buckets'']) = [Callback None]"
proof -
  have a: "ReqEnd \<in> set (do_raw sample_env ''raw'' no_flags [''/buckets''])"
    by (simp add: eval_defs)
  have b: "result_event sample_env = Some (None, ok_response)"
    by (simp add: sample_env_def)
  have c: "resolve_method no_flags \<noteq> ''HEAD''"
    by (simp add: resolve_method_def no_flags_def truthy_def)
  have d: "body_events sample_env = map Data [[0x66, 0x6F, 0x6F], [0x62, 0x61, 0x72]] @ [End]"
    by (simp add: sample_env_def)
  have q: "\<not> opt_verbose no_flags \<and> \<not> opt_include no_flags"
    by (simp add: no_flags_def)
  note t = success_body_streamed[OF a b c, where chunks = "[[0x66, 0x6F, 0x6F], [0x62, 0x61, 0x72]]"]
  have e: "stdout_of (do_raw sample_env ''raw'' no_flags [''/buckets'']) = ''foobar''
     \<and> filter is_completion (do_raw sample_env ''raw'' no_flags [''/buckets'']) = [Callback None]"
    using t[THEN conjunct2, THEN conjunct2] q d
    by (simp add: sample_env_def ascii_text_def char_of_def bit_Suc_0_iff)
  from a b c d e show ?thesis by blast
qed

section \<open>Raw mode: HEAD\<close>

lemma response_trace_env:
  "response_trace opts m (env\<lparr>result_event := r, body_events := evs\<rparr>) res
     = response_trace opts m env res"
  by (simp add: response_trace_def response_trace_lines_def status_line_def)

text \<open>
  C3. When the request was sent with the method HEAD, the \<^verbatim>\<open>'result'\<close> handler
  prints the response trace and calls the callback without an error; the run is the same
  whatever error object and whatever body events the transport delivers, so no body is
  read or written.
\<close>

theorem head_short_circuit:
  assumes "ReqEnd \<in> set (do_raw env subcmd opts args)"
    and "resolve_method opts = ''HEAD''"
    and "result_event env = Some (resErr, res)"
  shows "do_raw env subcmd opts args =
           do_raw (env\<lparr>result_event := None\<rparr>) subcmd opts args
           @ response_trace opts ''HEAD'' env res @ [Callback None]
       \<and> (\<forall>resErr' evs.
             do_raw (env\<lparr>result_event := Some (resErr', res), body_events := evs\<rparr>) subcmd opts args
               = do_raw env subcmd opts args)
       \<and> filter is_completion (do_raw env subcmd opts args) = [Callback None]
       \<and> exit_status None = 0"
proof -
  let ?pre = "do_raw (env\<lparr>result_event := None\<rparr>) subcmd opts args"
  let ?rt = "response_trace opts ''HEAD'' env res"
  have run: "do_raw env subcmd opts args = ?pre @ ?rt @ [Callback None]"
    using do_raw_sent[OF assms(1)] assms(2,3) by (simp add: on_result_def)
  from do_raw_sent_explicit[OF assms(1)] obtain f p hs hs' where
    H: "\<And>r evs. do_raw (env\<lparr>result_event := r, body_events := evs\<rparr>) subcmd opts args =
       SignRequest hs # Request f p hs'
       # request_trace opts (resolve_method opts) p hs' @ send_data opts @ [ReqEnd]
       @ (case r of None \<Rightarrow> []
          | Some (resErr, res) \<Rightarrow>
              on_result opts (resolve_method opts) (env\<lparr>result_event := r, body_events := evs\<rparr>)
                resErr res)"
    by blast
  have same: "do_raw (env\<lparr>result_event := Some (resErr', res), body_events := evs\<rparr>) subcmd opts args
               = do_raw env subcmd opts args" for resErr' evs
  proof -
    have E: "env\<lparr>result_event := result_event env, body_events := body_events env\<rparr> = env"
      by simp
    note H0 = H[where r = "result_event env" and evs = "body_events env", unfolded E]
    show ?thesis
      using H[where r = "Some (resErr', res)" and evs = evs] H0 assms(2,3)
      by (simp add: on_result_def response_trace_env)
  qed
  have "filter is_completion ?pre = []"
    using prefix_no_completion[OF assms(1)] by (simp add: list_all_iff filter_empty_conv)
  moreover have "filter is_completion ?rt = []"
    using response_trace_no_completion[of opts "''HEAD''" env res]
    by (simp add: list_all_iff filter_empty_conv)
  ultimately have "filter is_completion (do_raw env subcmd opts args) = [Callback None]"
    using run by simp
  with run same show ?thesis by (simp add: exit_status_def)
qed

theorem head_short_circuit_witness:
  "ReqEnd \<in> set (do_raw not_found_env ''raw'' (no_flags\<lparr>opt_method := Some ''HEAD''\<rparr>) [''/buckets''])
   \<and> resolve_method (no_flags\<lparr>opt_method := Some ''HEAD''\<rparr>) = ''HEAD''
   \<and> result_event not_found_env = Some (Some not_found_error, not_found_response)
   \<and> do_raw not_found_env ''raw'' (no_flags\<lparr>opt_method := Some ''HEAD''\<rparr>) [''/buckets'']
       = do_raw (not_found_env\<lparr>result_event := None\<rparr>) ''raw''
           (no_flags\<lparr>opt_method := Some ''HEAD''\<rparr>) [''/buckets'']
         @ [Stdout (''HTTP/1.1 404 Not Found'' @ [CHR 0x0A]), Stdout [CHR 0x0A], Callback None]"
proof -
  have a: "ReqEnd \<in> set (do_raw not_found_env ''raw'' (no_flags\<lparr>opt_method := Some ''HEAD''\<rparr>) [''/buckets''])"
    by (simp add: eval_defs)
  have b: "resolve_method (no_flags\<lparr>opt_method := Some ''HEAD''\<rparr>) = ''HEAD''"
    by (simp add: resolve_method_def no_flags_def truthy_def js_string_def)
  have c: "result_event not_found_env = Some (Some not_found_error, not_found_response)"
    by (simp add: not_found_env_def)
  have d: "response_trace (no_flags\<lparr>opt_method := Some ''HEAD''\<rparr>) ''HEAD'' not_found_env not_found_response
       = [Stdout (''HTTP/1.1 404 Not Found'' @ [CHR 0x0A]), Stdout [CHR 0x0A]]"
    by (simp add: eval_defs)
  from head_short_circuit[OF a b c, THEN conjunct1] d
  have "do_raw not_found_env ''raw'' (no_flags\<lparr>opt_method := Some ''HEAD''\<rparr>) [''/buckets'']
       = do_raw (not_found_env\<lparr>result_event := None\<rparr>) ''raw''
           (no_flags\<lparr>opt_method := Some ''HEAD''\<rparr>) [''/buckets'']
         @ [Stdout (''HTTP/1.1 404 Not Found'' @ [CHR 0x0A]), Stdout [CHR 0x0A], Callback None]"
    by simp
  with a b c show ?thesis by blast
qed

section \<open>Raw mode: method resolution\<close>

lemma methodFunc_of_None:
  "methodFunc_of m = None \<longleftrightarrow>
     m \<notin> {''GET'', ''PUT'', ''POST'', ''HEAD'', ''OPTIONS'', ''DELETE''}
     \<and> m \<notin> set object_prototype_names"
  by (simp add: methodFunc_of_def)

text \<open>
  C4, as amended. The resolved method is the value of \<^verbatim>\<open>--method\<close> when the flag is given
  with a non-empty value; when the flag is absent or empty it is PUT with a non-empty
  \<^verbatim>\<open>--data\<close> and GET without \<^verbatim>\<open>--data\<close>. Without \<^verbatim>\<open>--help\<close> and with a path
  argument, a resolved method that is neither one of the six verbs nor the name of a
  property inherited from \<^verbatim>\<open>Object.prototype\<close> makes the command fail with the
  \<^verbatim>\<open>unknown HTTP method\<close> error, and no request is attempted.
\<close>

theorem method_resolution:
  \<open>(opt_method opts = Some m \<and> m \<noteq> [] \<longrightarrow> resolve_method opts = m)
   \<and> (\<not> truthy (opt_method opts) \<and> truthy (opt_data opts) \<longrightarrow> resolve_method opts = ''PUT'')
   \<and> (\<not> truthy (opt_method opts) \<and> opt_data opts = None \<longrightarrow> resolve_method opts = ''GET'')
   \<and> (\<not> opt_help opts \<and> args \<noteq> []
        \<and> resolve_method opts \<notin> {''GET'', ''PUT'', ''POST'', ''HEAD'', ''OPTIONS'', ''DELETE''}
        \<and> resolve_method opts \<notin> set object_prototype_names \<longrightarrow>
        do_raw env subcmd opts args =
          [Callback (Some (VError (''unknown HTTP method: "'' @ resolve_method opts @ ''"'')))]
        \<and> no_request_attempted (do_raw env subcmd opts args))\<close>
proof -
  have 1: "opt_method opts = Some m \<and> m \<noteq> [] \<longrightarrow> resolve_method opts = m"
    by (simp add: resolve_method_def truthy_def js_string_def)
  have 2: "\<not> truthy (opt_method opts) \<and> truthy (opt_data opts) \<longrightarrow> resolve_method opts = ''PUT''"
    by (simp add: resolve_method_def)
  have 3: "\<not> truthy (opt_method opts) \<and> opt_data opts = None \<longrightarrow> resolve_method opts = ''GET''"
    by (simp add: resolve_method_def truthy_def)
  have 4: \<open>\<not> opt_help opts \<and> args \<noteq> []
        \<and> resolve_method opts \<notin> {''GET'', ''PUT'', ''POST'', ''HEAD'', ''OPTIONS'', ''DELETE''}
        \<and> resolve_method opts \<notin> set object_prototype_names \<longrightarrow>
        do_raw env subcmd opts args =
          [Callback (Some (VError (''unknown HTTP method: "'' @ resolve_method opts @ ''"'')))]
        \<and> no_request_attempted (do_raw env subcmd opts args)\<close>
  proof (intro impI)
    assume a: "\<not> opt_help opts \<and> args \<noteq> []
        \<and> resolve_method opts \<notin> {''GET'', ''PUT'', ''POST'', ''HEAD'', ''OPTIONS'', ''DELETE''}
        \<and> resolve_method opts \<notin> set object_prototype_names"
    then have "methodFunc_of (resolve_method opts) = None"
      using methodFunc_of_None[of "resolve_method opts"] by blast
    with a have r: \<open>do_raw env subcmd opts args =
          [Callback (Some (VError (''unknown HTTP method: "'' @ resolve_method opts @ ''"'')))]\<close>
      by (simp add: do_raw_def Let_def)
    then show \<open>do_raw env subcmd opts args =
          [Callback (Some (VError (''unknown HTTP method: "'' @ resolve_method opts @ ''"'')))]
        \<and> no_request_attempted (do_raw env subcmd opts args)\<close>
      by (simp add: no_request_attempted_def)
  qed
  from 1 2 3 4 show ?thesis by blast
qed

theorem method_resolution_witness:
  \<open>resolve_method (no_flags\<lparr>opt_method := Some ''DELETE'', opt_data := Some ''{}''\<rparr>) = ''DELETE''
   \<and> resolve_method (no_flags\<lparr>opt_data := Some ''{}''\<rparr>) = ''PUT''
   \<and> resolve_method no_flags = ''GET''
   \<and> do_raw sample_env ''raw'' (no_flags\<lparr>opt_method := Some ''PATCH''\<rparr>) [''/buckets'']
       = [Callback (Some (VError ''unknown HTTP method: "PATCH"''))]\<close>
  using method_resolution[where opts = "no_flags\<lparr>opt_method := Some ''DELETE'', opt_data := Some ''{}''\<rparr>"
      and m = "''DELETE''"]
    method_resolution[where opts = "no_flags\<lparr>opt_data := Some ''{}''\<rparr>"]
    method_resolution[where opts = no_flags]
    method_resolution[where opts = "no_flags\<lparr>opt_method := Some ''PATCH''\<rparr>" and m = "''PATCH''"
      and args = "[''/buckets'']" and env = sample_env and subcmd = "''raw''"]
  by (simp add: no_flags_def truthy_def object_prototype_names_def)

text \<open>
  C4 as stated fails for \<^verbatim>\<open>--method ''\<close>: the flag is given, its value is not the
  resolved method, and a GET request is sent.
\<close>

theorem method_resolution_counterexample:
  "opt_method (no_flags\<lparr>opt_method := Some ''''\<rparr>) = Some ''''
   \<and> resolve_method (no_flags\<lparr>opt_method := Some ''''\<rparr>) = ''GET''
   \<and> do_raw sample_env ''raw'' (no_flags\<lparr>opt_method := Some ''''\<rparr>) [''/buckets'']
       = [SignRequest [], Request ''get'' ''/buckets'' [(''authorization'', ''Signature abc'')],
          ReqEnd, Stdout ''foo'', Stdout ''bar'', Callback None]"
  by (simp add: eval_defs char_of_def bit_Suc_0_iff)

text \<open>
  The method table is an object literal, so a method named like an inherited property
  passes the check of line 55; the command signs the request and then fails on the call
  of a method the HTTP client does not have.
\<close>

lemma inherited_method_name:
  "do_raw sample_env ''raw'' (no_flags\<lparr>opt_method := Some ''constructor''\<rparr>) [''/buckets'']
     = [SignRequest [], Throw (TypeError ''client.client[methodFunc] is not a function'')]"
  by (simp add: eval_defs)

section \<open>Raw mode: header flags\<close>



section \<open>Raw mode: target resolution\<close>

text \<open>
  C6. A path argument whose parse has a (non-empty) host or port makes target
  resolution fail with the assertion error of lines 62--63. No request is attempted in
  any such invocation, and when the command reaches target resolution (no
  \<^verbatim>\<open>--help\<close>, a method the table knows) the assertion error is its only action.
\<close>

theorem host_or_port_rejected:
  assumes "truthy (host (url_parse env a)) \<or> truthy (port (url_parse env a))"
  shows "(\<exists>msg. resolve_target (url_parse env) (client_path env) a = Inl (AssertionError msg))
       \<and> no_request_attempted (do_raw env subcmd opts (a # rest))
       \<and> (\<not> opt_help opts \<and> methodFunc_of (resolve_method opts) \<noteq> None \<longrightarrow>
            (\<exists>msg. do_raw env subcmd opts (a # rest) = [Throw (AssertionError msg)]))"
proof -
  have "\<exists>msg. resolve_target (url_parse env) (client_path env) a = Inl (AssertionError msg)"
    using assms by (cases "truthy (host (url_parse env a))") (simp_all add: resolve_target_def Let_def)
  then obtain msg where
    t: "resolve_target (url_parse env) (client_path env) a = Inl (AssertionError msg)"
    by blast
  then have "no_request_attempted (do_raw env subcmd opts (a # rest))"
    by (simp add: do_raw_def Let_def no_request_attempted_def split: option.splits)
  moreover have "do_raw env subcmd opts (a # rest) = [Throw (AssertionError msg)]"
    if "\<not> opt_help opts \<and> methodFunc_of (resolve_method opts) \<noteq> None"
    using that t by (auto simp: do_raw_def Let_def)
  ultimately show ?thesis using t by blast
qed

theorem host_or_port_rejected_witness:
  "(truthy (host (url_parse sample_env ''http://example.com:8080/x''))
      \<or> truthy (port (url_parse sample_env ''http://example.com:8080/x'')))
   \<and> resolve_target (url_parse sample_env) (client_path sample_env) ''http://example.com:8080/x''
       = Inl (AssertionError ''given PATH should not have a host: example.com:8080'')
   \<and> do_raw sample_env ''raw'' no_flags [''http://example.com:8080/x'']
       = [Throw (AssertionError ''given PATH should not have a host: example.com:8080'')]"
proof -
  have a: "truthy (host (url_parse sample_env ''http://example.com:8080/x''))
      \<or> truthy (port (url_parse sample_env ''http://example.com:8080/x''))"
    by (simp add: sample_env_def sample_url_parse_def truthy_def)
  have b: "\<not> opt_help no_flags \<and> methodFunc_of (resolve_method no_flags) \<noteq> None"
    by (simp add: no_flags_def resolve_method_def methodFunc_of_def truthy_def)
  have c: "resolve_target (url_parse sample_env) (client_path sample_env) ''http://example.com:8080/x''
       = Inl (AssertionError ''given PATH should not have a host: example.com:8080'')"
    using host_or_port_rejected[OF a, THEN conjunct1]
    by (simp add: resolve_target_def sample_env_def sample_url_parse_def truthy_def js_string_def)
  have d: "do_raw sample_env ''raw'' no_flags [''http://example.com:8080/x'']
       = [Throw (AssertionError ''given PATH should not have a host: example.com:8080'')]"
    using host_or_port_rejected[OF a, where opts = no_flags and subcmd = "''raw''" and rest = "[]",
        THEN conjunct2, THEN conjunct2] b c
    by (auto simp: do_raw_def Let_def)
  from a c d show ?thesis by blast
qed

section \<open>Raw mode: the response trace\<close>

lemma stdout_of_writeResLine:
  "stdout_of (writeResLine opts m l) =
     (if opt_verbose opts then ''< '' @ l @ [CHR 0x0A] else [])
     @ (if opt_include opts \<or> m = ''HEAD'' then l @ [CHR 0x0A] else [])"
  by (simp add: writeResLine_def console_log_def)

lemma stdout_of_concat: "stdout_of (concat xss) = concat (map stdout_of xss)"
  by (induction xss) (simp_all add: stdout_of_append)

text \<open>
  C7. The response trace (status line, one line per header, an empty line) produces
  output exactly when \<^verbatim>\<open>--verbose\<close> or \<^verbatim>\<open>--include\<close> is set or the method is HEAD.
  Each line is printed with the prefix \<^verbatim>\<open>< \<close> under \<^verbatim>\<open>--verbose\<close> and as it is under
  \<^verbatim>\<open>--include\<close> or HEAD; the trace comes right after the request has been ended and
  before anything the body handling does.
\<close>

theorem response_trace_gating:
  "(response_trace opts m env res \<noteq> [] \<longleftrightarrow> opt_verbose opts \<or> opt_include opts \<or> m = ''HEAD'')
   \<and> (stdout_of (response_trace opts m env res) \<noteq> []
        \<longleftrightarrow> opt_verbose opts \<or> opt_include opts \<or> m = ''HEAD'')
   \<and> stdout_of (response_trace opts m env res) =
        concat (map (\<lambda>l. (if opt_verbose opts then ''< '' @ l @ [CHR 0x0A] else [])
                          @ (if opt_include opts \<or> m = ''HEAD'' then l @ [CHR 0x0A] else []))
                    (status_line env res
                     # map (\<lambda>(k, v). k @ '': '' @ v) (res_headers res) @ [[]]))
   \<and> (ReqEnd \<in> set (do_raw env subcmd opts args) \<and> result_event env = Some (resErr, res) \<longrightarrow>
        (\<exists>rest. do_raw env subcmd opts args =
                  do_raw (env\<lparr>result_event := None\<rparr>) subcmd opts args
                  @ response_trace opts (resolve_method opts) env res @ rest))"
proof -
  have 1: "response_trace opts m env res \<noteq> [] \<longleftrightarrow> opt_verbose opts \<or> opt_include opts \<or> m = ''HEAD''"
    by (auto simp: response_trace_def response_trace_lines_def writeResLine_def)
  have 3: "stdout_of (response_trace opts m env res) =
        concat (map (\<lambda>l. (if opt_verbose opts then ''< '' @ l @ [CHR 0x0A] else [])
                          @ (if opt_include opts \<or> m = ''HEAD'' then l @ [CHR 0x0A] else []))
                    (status_line env res
                     # map (\<lambda>(k, v). k @ '': '' @ v) (res_headers res) @ [[]]))"
    by (simp add: response_trace_def response_trace_lines_def stdout_of_concat stdout_of_append
        stdout_of_writeResLine comp_def)
  have 2: "stdout_of (response_trace opts m env res) \<noteq> []
        \<longleftrightarrow> opt_verbose opts \<or> opt_include opts \<or> m = ''HEAD''"
    unfolding 3 by auto
  have 4: "ReqEnd \<in> set (do_raw env subcmd opts args) \<and> result_event env = Some (resErr, res) \<longrightarrow>
        (\<exists>rest. do_raw env subcmd opts args =
                  do_raw (env\<lparr>result_event := None\<rparr>) subcmd opts args
                  @ response_trace opts (resolve_method opts) env res @ rest)"
  proof (intro impI)
    assume a: "ReqEnd \<in> set (do_raw env subcmd opts args) \<and> result_event env = Some (resErr, res)"
    then have "do_raw env subcmd opts args =
        do_raw (env\<lparr>result_event := None\<rparr>) subcmd opts args
        @ on_result opts (resolve_method opts) env resErr res"
      using do_raw_sent[of env subcmd opts args] by simp
    then show "\<exists>rest. do_raw env subcmd opts args =
                  do_raw (env\<lparr>result_event := None\<rparr>) subcmd opts args
                  @ response_trace opts (resolve_method opts) env res @ rest"
      by (simp add: on_result_def)
  qed
  from 1 2 3 4 show ?thesis by blast
qed

theorem response_trace_gating_witness:
  "ReqEnd \<in> set (do_raw sample_env ''raw'' (no_flags\<lparr>opt_include := True\<rparr>) [''/buckets''])
   \<and> result_event sample_env = Some (None, ok_response)
   \<and> response_trace (no_flags\<lparr>opt_include := True\<rparr>) ''GET'' sample_env ok_response \<noteq> []
   \<and> stdout_of (response_trace (no_flags\<lparr>opt_include := True\<rparr>) ''GET'' sample_env ok_response)
       = ''HTTP/1.1 200 OK'' @ [CHR 0x0A] @ ''content-type: text/plain'' @ [CHR 0x0A, CHR 0x0A]
   \<and> response_trace no_flags ''GET'' sample_env ok_response = []
   \<and> stdout_of (do_raw sample_env ''raw'' (no_flags\<lparr>opt_include := True\<rparr>) [''/buckets''])
       = ''HTTP/1.1 200 OK'' @ [CHR 0x0A] @ ''content-type: text/plain'' @ [CHR 0x0A, CHR 0x0A]
         @ ''foobar''"
  using response_trace_gating[where opts = "no_flags\<lparr>opt_include := True\<rparr>" and m = "''GET''"
      and env = sample_env and res = ok_response, THEN conjunct1]
    response_trace_gating[where opts = no_flags and m = "''GET''"
      and env = sample_env and res = ok_response, THEN conjunct1]
  by (simp add: eval_defs char_of_def bit_Suc_0_iff)

section \<open>Raw mode: positional arguments\<close>




section \<open>Info mode\<close>

text \<open>
  C9. Without \<^verbatim>\<open>--help\<close>, with one argument that \<^verbatim>\<open>MantaUri\<close> parses: when the URI
  has a (non-empty) object the command calls \<^verbatim>\<open>headBucketObject\<close> with the bucket and
  the object, otherwise \<^verbatim>\<open>headBucket\<close> with the bucket. On success it prints the
  response and calls the callback without an error (exit status 0); on failure it passes
  the error to the callback (exit status non-zero) and prints nothing.
\<close>

theorem info_head_request:
  assumes "\<not> info_help opts"
    and "manta_uri_parse env a = Inr muri"
  shows "(truthy (object muri) \<longrightarrow>
            (\<forall>res. headBucketObject env (bucket muri) (js_string (object muri)) = Inr res \<longrightarrow>
               do_info env subcmd opts [a] =
                 [HeadBucketObject (bucket muri) (js_string (object muri)),
                  PrintBucketObjectInfo res, Callback None])
            \<and> (\<forall>err. headBucketObject env (bucket muri) (js_string (object muri)) = Inl err \<longrightarrow>
               do_info env subcmd opts [a] =
                 [HeadBucketObject (bucket muri) (js_string (object muri)), Callback (Some err)]))
       \<and> (\<not> truthy (object muri) \<longrightarrow>
            (\<forall>res. headBucket env (bucket muri) = Inr res \<longrightarrow>
               do_info env subcmd opts [a] =
                 [HeadBucket (bucket muri), PrintBucketObjectInfo res, Callback None])
            \<and> (\<forall>err. headBucket env (bucket muri) = Inl err \<longrightarrow>
               do_info env subcmd opts [a] = [HeadBucket (bucket muri), Callback (Some err)]))
       \<and> exit_status None = 0
       \<and> (\<forall>err. exit_status (Some err) \<noteq> 0)"
  using assms by (simp add: do_info_def on_head_def exit_status_def)

theorem info_head_request_witness:
  "\<not> info_help \<lparr>info_help = False\<rparr>
   \<and> manta_uri_parse sample_info_env ''manta:mybucket/foo.txt''
       = Inr \<lparr>bucket = ''mybucket'', object = Some ''foo.txt''\<rparr>
   \<and> do_info sample_info_env ''info'' \<lparr>info_help = False\<rparr> [''manta:mybucket/foo.txt'']
       = [HeadBucketObject ''mybucket'' ''foo.txt'', PrintBucketObjectInfo ok_response, Callback None]
   \<and> manta_uri_parse sample_info_env ''manta:mybucket'' = Inr \<lparr>bucket = ''mybucket'', object = None\<rparr>
   \<and> do_info sample_info_env ''info'' \<lparr>info_help = False\<rparr> [''manta:mybucket'']
       = [HeadBucket ''mybucket'', PrintBucketObjectInfo ok_response, Callback None]
   \<and> manta_uri_parse sample_info_env ''manta:nobucket'' = Inr \<lparr>bucket = ''nobucket'', object = None\<rparr>
   \<and> do_info sample_info_env ''info'' \<lparr>info_help = False\<rparr> [''manta:nobucket'']
       = [HeadBucket ''nobucket'', Callback (Some (CollaboratorError ''BucketNotFound''))]"
proof -
  have h: "\<not> info_help \<lparr>info_help = False\<rparr>" by simp
  have p1: "manta_uri_parse sample_info_env ''manta:mybucket/foo.txt''
       = Inr \<lparr>bucket = ''mybucket'', object = Some ''foo.txt''\<rparr>"
    by (simp add: sample_info_env_def)
  have p2: "manta_uri_parse sample_info_env ''manta:mybucket'' = Inr \<lparr>bucket = ''mybucket'', object = None\<rparr>"
    by (simp add: sample_info_env_def)
  have p3: "manta_uri_parse sample_info_env ''manta:nobucket'' = Inr \<lparr>bucket = ''nobucket'', object = None\<rparr>"
    by (simp add: sample_info_env_def)
  have r1: "do_info sample_info_env ''info'' \<lparr>info_help = False\<rparr> [''manta:mybucket/foo.txt'']
       = [HeadBucketObject ''mybucket'' ''foo.txt'', PrintBucketObjectInfo ok_response, Callback None]"
    using info_head_request[OF h p1, where subcmd = "''info''", THEN conjunct1]
    by (simp add: truthy_def js_string_def sample_info_env_def)
  have r2: "do_info sample_info_env ''info'' \<lparr>info_help = False\<rparr> [''manta:mybucket'']
       = [HeadBucket ''mybucket'', PrintBucketObjectInfo ok_response, Callback None]"
    using info_head_request[OF h p2, where subcmd = "''info''", THEN conjunct2, THEN conjunct1]
    by (simp add: truthy_def sample_info_env_def)
  have r3: "do_info sample_info_env ''info'' \<lparr>info_help = False\<rparr> [''manta:nobucket'']
       = [HeadBucket ''nobucket'', Callback (Some (CollaboratorError ''BucketNotFound''))]"
    using info_head_request[OF h p3, where subcmd = "''info''", THEN conjunct2, THEN conjunct1]
    by (simp add: truthy_def sample_info_env_def)
  from h p1 p2 p3 r1 r2 r3 show ?thesis by blast
qed

section \<open>Raw mode: repeated header flags\<close>

lemma insert_index_keys: "fst ` set (insert_index k v ps) = insert k (fst ` set ps)"
proof (induction ps)
  case Nil
  show ?case by simp
next
  case (Cons p ps)
  obtain k' v' where p: "p = (k', v')" by (cases p)
  show ?case
    using Cons by (cases "is_array_index k' \<and> nat_of_digits k' < nat_of_digits k") (auto simp: p)
qed

lemma insert_index_distinct:
  "k \<notin> fst ` set ps \<Longrightarrow> distinct (map fst ps) \<Longrightarrow> distinct (map fst (insert_index k v ps))"
proof (induction ps)
  case Nil
  show ?case by simp
next
  case (Cons p ps)
  obtain k' v' where p: "p = (k', v')" by (cases p)
  from Cons show ?case using insert_index_keys[of k v ps] by (auto simp: p image_iff)
qed

lemma insert_index_filter_same:
  "k \<notin> fst ` set ps \<Longrightarrow> filter (\<lambda>(k', x). k' = k) (insert_index k v ps) = [(k, v)]"
proof (induction ps)
  case Nil
  show ?case by simp
next
  case (Cons p ps)
  obtain k' v' where p: "p = (k', v')" by (cases p)
  from Cons.prems have k: "k \<noteq> k'" "k \<notin> fst ` set ps" by (auto simp: p)
  then have "filter (\<lambda>(k', x). k' = k) ps = []"
    by (force simp: filter_empty_conv)
  with Cons.IH[OF k(2)] k(1) show ?case by (simp add: p)
qed

lemma insert_index_filter_other:
  "n \<noteq> k \<Longrightarrow> filter (\<lambda>(k', x). k' = n) (insert_index k v ps) = filter (\<lambda>(k', x). k' = n) ps"
  by (induction ps) auto

lemma replace_filter_same:
  "k \<in> fst ` set ps \<Longrightarrow> distinct (map fst ps) \<Longrightarrow>
   filter (\<lambda>(k', x). k' = k) (map (\<lambda>(k', v'). if k' = k then (k', v) else (k', v')) ps) = [(k, v)]"
  by (induction ps) (auto simp: filter_empty_conv image_iff)

lemma replace_filter_other:
  "n \<noteq> k \<Longrightarrow>
   filter (\<lambda>(k', x). k' = n) (map (\<lambda>(k', v'). if k' = k then (k', v) else (k', v')) ps)
     = filter (\<lambda>(k', x). k' = n) ps"
  by (induction ps) (auto split: if_splits)

lemma replace_keys: "map fst (map (\<lambda>(k', v'). if k' = k then (k', v) else (k', v')) ps) = map fst ps"
  by (induction ps) auto

lemma obj_set_distinct: "distinct (map fst obj) \<Longrightarrow> distinct (map fst (obj_set obj k v))"
  using replace_keys[of k v obj]
  by (auto simp: obj_set_def insert_index_distinct simp del: map_map)

lemma obj_set_filter_same:
  "k \<noteq> ''__proto__'' \<Longrightarrow> distinct (map fst obj) \<Longrightarrow>
   filter (\<lambda>(k', x). k' = k) (obj_set obj k v) = [(k, v)]"
  by (auto simp: obj_set_def replace_filter_same insert_index_filter_same filter_empty_conv image_iff)

lemma obj_set_filter_other:
  "n \<noteq> k \<Longrightarrow> filter (\<lambda>(k', x). k' = n) (obj_set obj k v) = filter (\<lambda>(k', x). k' = n) obj"
  by (simp add: obj_set_def replace_filter_other insert_index_filter_other)

lemma populate_headers_distinct:
  "populate_headers flags hs0 = Inr hs \<Longrightarrow> distinct (map fst hs0) \<Longrightarrow> distinct (map fst hs)"
proof (induction flags arbitrary: hs0)
  case Nil
  then show ?case by simp
next
  case (Cons raw flags)
  then show ?case
    by (auto split: sum.splits dest: obj_set_distinct)
qed

lemma populate_headers_other:
  "populate_headers flags hs0 = Inr hs \<Longrightarrow>
   \<forall>r \<in> set flags. \<forall>v'. parse_header r \<noteq> Inr (n, v') \<Longrightarrow>
   filter (\<lambda>(k', x). k' = n) hs = filter (\<lambda>(k', x). k' = n) hs0"
proof (induction flags arbitrary: hs0)
  case Nil
  then show ?case by simp
next
  case (Cons raw flags)
  from Cons.prems(1) obtain k v where
    p: "parse_header raw = Inr (k, v)" and r: "populate_headers flags (obj_set hs0 k v) = Inr hs"
    by (auto split: sum.splits)
  from Cons.prems(2) p have "n \<noteq> k" by auto
  moreover from Cons.prems(2) have "\<forall>r \<in> set flags. \<forall>v'. parse_header r \<noteq> Inr (n, v')" by simp
  ultimately show ?case using Cons.IH[OF r] by (simp add: obj_set_filter_other)
qed

lemma populate_headers_append:
  "populate_headers (xs @ ys) hs0 =
     (case populate_headers xs hs0 of Inl e \<Rightarrow> Inl e | Inr h \<Rightarrow> populate_headers ys h)"
  by (induction xs arbitrary: hs0) (auto split: sum.splits)

text \<open>
  For every header name other than \<^verbatim>\<open>__proto__\<close>: after the last flag with that name,
  the headers object holds exactly one property of that name, with the value of that
  flag.
\<close>

lemma header_last_flag_wins:
  assumes "populate_headers (before @ raw # after) [] = Inr hs"
    and "parse_header raw = Inr (n, v)"
    and "n \<noteq> ''__proto__''"
    and "\<forall>r \<in> set after. \<forall>v'. parse_header r \<noteq> Inr (n, v')"
  shows "filter (\<lambda>(k, x). k = n) hs = [(n, v)]"
proof -
  from assms(1) obtain h1 where
    h1: "populate_headers before [] = Inr h1" and
    rest: "populate_headers (raw # after) h1 = Inr hs"
    by (auto simp: populate_headers_append split: sum.splits)
  from rest assms(2) have after: "populate_headers after (obj_set h1 n v) = Inr hs"
    by simp
  have "distinct (map fst h1)"
    using populate_headers_distinct[OF h1] by simp
  then have "filter (\<lambda>(k, x). k = n) (obj_set h1 n v) = [(n, v)]"
    using assms(3) by (rule obj_set_filter_same[rotated])
  with populate_headers_other[OF after assms(4)] show ?thesis by simp
qed

text \<open>
  C10 at the input \<^verbatim>\<open>-H '__proto__: a' -H '__proto__: b'\<close>. Both flags are well formed
  and parse to the same name, and the claim is that the request carries exactly one header
  of that name, with the value \<open>b\<close>. The assignment of line 82 reaches the inherited
  accessor instead of creating a property: the headers object stays empty and the request
  carries only what signing adds. Two flags named \<^verbatim>\<open>x-a\<close> leave one header with the
  last value.
\<close>

theorem proto_header_lost:
  "build_headers (no_flags\<lparr>opt_header := Some [''__proto__: a'', ''__proto__: b'']\<rparr>) = Inr []
   \<and> do_raw sample_env ''raw'' (no_flags\<lparr>opt_header := Some [''__proto__: a'', ''__proto__: b'']\<rparr>)
        [''/buckets'']
       = [SignRequest [], Request ''get'' ''/buckets'' [(''authorization'', ''Signature abc'')],
          ReqEnd, Stdout ''foo'', Stdout ''bar'', Callback None]
   \<and> build_headers (no_flags\<lparr>opt_header := Some [''x-a: 1'', ''x-a:2'']\<rparr>) = Inr [(''x-a'', ''2'')]"
  by (simp add: eval_defs char_of_def bit_Suc_0_iff)

end
